theory Spec2Isabelle
  imports Complex_Main
begin

section \<open>The city time-lapse: timeline driver\<close>

text \<open>
  The embedded program is \<^verbatim>\<open>src/app/components/CityTimelapse.tsx\<close>. Its numbers are
  JavaScript numbers; they are modelled as the reals, so every statement below is about the
  exact arithmetic the source writes down, without the rounding of IEEE doubles.
  \<^verbatim>\<open>Math.sin\<close>, \<^verbatim>\<open>Math.cos\<close> and \<^verbatim>\<open>Math.PI\<close> are the real sine, cosine and \<open>pi\<close>.
\<close>

definition CYCLE_SECONDS :: real where
  "CYCLE_SECONDS = 22"

text \<open>\<^verbatim>\<open>t < 0.5 ? 2 * t * t : -1 + (4 - 2 * t) * t\<close>\<close>

definition easeInOut :: "real \<Rightarrow> real" where
  "easeInOut t = (if t < 0.5 then 2 * t * t else - 1 + (4 - 2 * t) * t)"

text \<open>\<^verbatim>\<open>Math.min(1, Math.max(0, x))\<close>\<close>

definition clamp01 :: "real \<Rightarrow> real" where
  "clamp01 x = min 1 (max 0 x)"

text \<open>
  \<^verbatim>\<open>clamp01((x - inMin) / (inMax - inMin))\<close>. Every call of the source has
  \<open>inMin < inMax\<close>; with \<open>inMin = inMax\<close> JavaScript would divide by zero.
\<close>

definition remap :: "real \<Rightarrow> real \<Rightarrow> real \<Rightarrow> real" where
  "remap x inMin inMax = clamp01 ((x - inMin) / (inMax - inMin))"

text \<open>
  The remainder operator \<^verbatim>\<open>a % n\<close> of JavaScript on numbers: the quotient is truncated
  towards zero, so the result has the sign of the dividend.
\<close>

definition js_rem :: "real \<Rightarrow> real \<Rightarrow> real" where
  "js_rem a n = a - n * of_int (if 0 \<le> a / n then floor (a / n) else ceiling (a / n))"

text \<open>\<^verbatim>\<open>const phase = (t % CYCLE_SECONDS) / CYCLE_SECONDS\<close>, the first lines of every frame callback.\<close>

definition phase :: "real \<Rightarrow> real" where
  "phase t = js_rem t CYCLE_SECONDS / CYCLE_SECONDS"

subsection \<open>The progress values of \<^verbatim>\<open>Buildings\<close>\<close>

definition construct' :: "real \<Rightarrow> real" where
  "construct' p = remap p 0.4 0.7"

definition finish :: "real \<Rightarrow> real" where
  "finish p = remap p 0.7 1.0"

definition foundationRise :: "real \<Rightarrow> real" where
  "foundationRise p = easeInOut (construct' p)"

definition frameRise :: "real \<Rightarrow> real" where
  "frameRise p = easeInOut (clamp01 (construct' p * 1.1 - 0.15))"

definition skinAppear :: "real \<Rightarrow> real" where
  "skinAppear p = easeInOut (finish p)"

subsection \<open>Materials and instance matrices\<close>

text \<open>
  A material, with the fields the frame callbacks write. A frame callback takes the objects
  it mutates and returns them updated.
\<close>

record material =
  color :: nat
  metalness :: real
  roughness :: real
  opacity :: real
  transparent :: bool

type_synonym vec3 = "real \<times> real \<times> real"

text \<open>
  \<^verbatim>\<open>m.compose(position, new THREE.Quaternion(), scale)\<close>: the rotation is always the
  identity, so an instance matrix is its translation and its scale.
\<close>

record instance_matrix =
  inst_position :: vec3
  inst_scale :: vec3

text \<open>
  A material as the library creates it, opaque (\<open>opacity = 1\<close>, \<open>transparent = false\<close>),
  with the colour given to its constructor.
\<close>

definition initial_material :: "nat \<Rightarrow> material" where
  "initial_material c =
     \<lparr>color = c, metalness = 0, roughness = 1, opacity = 1, transparent = False\<rparr>"

subsection \<open>The frame callback of \<^verbatim>\<open>BlueprintOverlay\<close>\<close>

definition blueprint_appear :: "real \<Rightarrow> real" where
  "blueprint_appear p = clamp01 (remap p 0.2 0.4)"

definition blueprint_pulse :: "real \<Rightarrow> real" where
  "blueprint_pulse t = 0.6 + 0.4 * sin (t * 2.2)"

definition BlueprintOverlay_frame :: "real \<Rightarrow> material \<Rightarrow> material" where
  "BlueprintOverlay_frame t mat =
     (let p = phase t;
          pulse = blueprint_pulse t;
          appear = blueprint_appear p
      in mat\<lparr>opacity := appear * pulse, transparent := True\<rparr>)"

subsection \<open>Footprint generation of \<^verbatim>\<open>Buildings\<close>\<close>

text \<open>
  \<^verbatim>\<open>Math.random()\<close> is a sequence of draws \<open>rnd 0, rnd 1, \<dots>\<close>, each in \<open>[0, 1)\<close>; the
  layout counts the draws made so far. The loop counters are integers, and the test
  \<^verbatim>\<open>x % 16 === 0\<close> is the remainder of JavaScript on them.
\<close>

record layout =
  positions :: "(real \<times> real) list"
  heights :: "real list"
  draws :: nat

definition footprint_cell :: "(nat \<Rightarrow> real) \<Rightarrow> int \<Rightarrow> int \<Rightarrow> layout \<Rightarrow> layout" where
  "footprint_cell rnd x z s =
     (if js_rem (of_int x) 16 = 0 \<or> js_rem (of_int z) 16 = 0 then s
      else
        let k = draws s;
            jitterX = rnd k * 1.5 - 0.75;
            jitterZ = rnd (k + 1) * 1.5 - 0.75;
            h = 4 + of_int (floor (rnd (k + 2) * 18))
        in \<lparr>positions = positions s @ [(of_int x + jitterX, of_int z + jitterZ)],
            heights = heights s @ [h],
            draws = k + 3\<rparr>)"

function footprints_z :: "(nat \<Rightarrow> real) \<Rightarrow> int \<Rightarrow> int \<Rightarrow> layout \<Rightarrow> layout" where
  "footprints_z rnd x z s =
     (if z \<le> 40 then footprints_z rnd x (z + 8) (footprint_cell rnd x z s) else s)"
  by pat_completeness auto
termination
  by (relation "measure (\<lambda>(rnd, x, z, s). nat (41 - z))") auto

function footprints_x :: "(nat \<Rightarrow> real) \<Rightarrow> int \<Rightarrow> layout \<Rightarrow> layout" where
  "footprints_x rnd x s =
     (if x \<le> 40 then footprints_x rnd (x + 8) (footprints_z rnd x (- 40) s) else s)"
  by pat_completeness auto
termination
  by (relation "measure (\<lambda>(rnd, x, s). nat (41 - x))") auto

definition footprints :: "(nat \<Rightarrow> real) \<Rightarrow> layout" where
  "footprints rnd = footprints_x rnd (- 40) \<lparr>positions = [], heights = [], draws = 0\<rparr>"

subsection \<open>The frame callback of \<^verbatim>\<open>Buildings\<close>\<close>

definition foundation_matrix :: "real \<Rightarrow> real \<times> real \<Rightarrow> instance_matrix" where
  "foundation_matrix fr xz =
     (let foundationHeight = max 0.2 (0.6 * fr)
      in \<lparr>inst_position = (fst xz, foundationHeight / 2, snd xz),
          inst_scale = (2.6, foundationHeight, 2.6)\<rparr>)"

definition frame_matrix :: "real \<Rightarrow> real \<Rightarrow> real \<times> real \<Rightarrow> instance_matrix" where
  "frame_matrix fr height xz =
     (let frameH = height * fr
      in \<lparr>inst_position = (fst xz, frameH / 2, snd xz),
          inst_scale = (0.15, max 0.01 frameH, 0.15)\<rparr>)"

definition skin_matrix :: "real \<Rightarrow> real \<Rightarrow> real \<times> real \<Rightarrow> instance_matrix" where
  "skin_matrix sa height xz =
     (let skinH = height * clamp01 sa
      in \<lparr>inst_position = (fst xz, skinH / 2, snd xz),
          inst_scale = (2.8, max 0.01 skinH, 2.8)\<rparr>)"

record buildings =
  foundation_instances :: "instance_matrix list"
  frame_instances :: "instance_matrix list"
  skin_instances :: "instance_matrix list"
  fdMat :: material
  fMat :: material
  sMat :: material

text \<open>
  The callback returns at once while a mesh is not mounted. The loop over the footprints
  reads \<^verbatim>\<open>heights[i]\<close> beside the \<open>i\<close>-th footprint; both lists come from the same layout.
\<close>

definition Buildings_frame :: "bool \<Rightarrow> layout \<Rightarrow> real \<Rightarrow> buildings \<Rightarrow> buildings" where
  "Buildings_frame mounted lay t b =
     (if \<not> mounted then b
      else
        let p = phase t;
            fr = foundationRise p;
            frr = frameRise p;
            sa = skinAppear p
        in \<lparr>foundation_instances = map (foundation_matrix fr) (positions lay),
            frame_instances = map (\<lambda>(xz, h). frame_matrix frr h xz) (zip (positions lay) (heights lay)),
            skin_instances = map (\<lambda>(xz, h). skin_matrix sa h xz) (zip (positions lay) (heights lay)),
            fdMat = (fdMat b)\<lparr>color := 0x9aa3ab, metalness := 0.0, roughness := 0.95,
                      opacity := 0.9 * fr * (1.0 - 0.2 * sa), transparent := True\<rparr>,
            fMat = (fMat b)\<lparr>color := 0x96a5b8, metalness := 0.6, roughness := 0.5,
                      opacity := clamp01 (frr * (1.0 - 0.6 * sa)), transparent := True\<rparr>,
            sMat = (sMat b)\<lparr>color := 0x9bb7d9, metalness := 0.2, roughness := 0.65,
                      opacity := clamp01 (0.15 + 0.85 * sa), transparent := True\<rparr>\<rparr>)"

subsection \<open>The road strips of \<^verbatim>\<open>RoadsAndParks\<close>\<close>

text \<open>
  A plane mesh laid flat on the ground (rotated by \<open>- pi / 2\<close> about the x axis): its centre
  and its extents along x and along z.
\<close>

record plane_mesh =
  mesh_position :: vec3
  extent_x :: real
  extent_z :: real

function roads_loop :: "int \<Rightarrow> plane_mesh list \<Rightarrow> plane_mesh list" where
  "roads_loop i roads =
     (if i \<le> 48 then
        roads_loop (i + 16)
          (roads @
            [\<lparr>mesh_position = (0, 0.02, of_int i), extent_x = 200, extent_z = 3.2\<rparr>,
             \<lparr>mesh_position = (of_int i, 0.02, 0), extent_x = 3.2, extent_z = 200\<rparr>])
      else roads)"
  by pat_completeness auto
termination
  by (relation "measure (\<lambda>(i, roads). nat (49 - i))") auto

definition roads :: "plane_mesh list" where
  "roads = roads_loop (- 48) []"

text \<open>
  The ground rectangle of a finished building (the skin box is 2.8 wide and deep, centred
  on the footprint) meets the rectangle of a road strip, borders included.
\<close>

definition building_overlaps_road :: "real \<times> real \<Rightarrow> plane_mesh \<Rightarrow> bool" where
  "building_overlaps_road xz r =
     (case mesh_position r of (cx, cy, cz) \<Rightarrow>
        \<bar>fst xz - cx\<bar> \<le> 2.8 / 2 + extent_x r / 2 \<and> \<bar>snd xz - cz\<bar> \<le> 2.8 / 2 + extent_z r / 2)"

text \<open>
  A footprint lies within the jitter (at most 0.75 on each axis) of a grid cell that the
  loops visit and do not skip.
\<close>

definition near_cell :: "real \<times> real \<Rightarrow> bool" where
  "near_cell pq = (\<exists>x z. (- 40 \<le> x \<and> x \<le> 40 \<and> 8 dvd x \<and> js_rem (of_int x) 16 \<noteq> 0) \<and>
      (- 40 \<le> z \<and> z \<le> 40 \<and> 8 dvd z \<and> js_rem (of_int z) 16 \<noteq> 0) \<and>
      \<bar>fst pq - of_int x\<bar> \<le> 3 / 4 \<and> \<bar>snd pq - of_int z\<bar> \<le> 3 / 4)"

text \<open>A road strip as the loop of \<^verbatim>\<open>RoadsAndParks\<close> creates them, on a line at a multiple of 16.\<close>

definition road_strip :: "plane_mesh \<Rightarrow> bool" where
  "road_strip r = (\<exists>i. 16 dvd i \<and>
     (mesh_position r = (0, 0.02, of_int i) \<and> extent_x r = 200 \<and> extent_z r = 3.2 \<or>
      mesh_position r = (of_int i, 0.02, 0) \<and> extent_x r = 3.2 \<and> extent_z r = 200))"

declare footprints_z.simps [simp del] footprints_x.simps [simp del] roads_loop.simps [simp del]

subsection \<open>The frame callback of \<^verbatim>\<open>SimpleCranes\<close>\<close>

definition crane_opacity :: "real \<Rightarrow> real" where
  "crane_opacity p = (let appear = remap p 0.4 0.7 in appear * 0.8 * (1.0 - remap p 0.7 1.0))"

record cranes =
  rotation_y :: "real list"
  crane_mat :: material

definition SimpleCranes_frame :: "bool \<Rightarrow> real \<Rightarrow> cranes \<Rightarrow> cranes" where
  "SimpleCranes_frame mounted t c =
     (if \<not> mounted then c
      else
        let p = phase t
        in \<lparr>rotation_y = map (\<lambda>i. sin (t * 0.3 + of_nat i) * 0.2) [0 ..< length (rotation_y c)],
            crane_mat = (crane_mat c)\<lparr>opacity := crane_opacity p, transparent := True\<rparr>\<rparr>)"

subsection \<open>The frame callback of \<^verbatim>\<open>CameraRig\<close>\<close>

record camera =
  cam_position :: vec3
  cam_target :: vec3

definition camera_orbit :: "real \<Rightarrow> real" where
  "camera_orbit p = 0.2 + 0.8 * easeInOut (remap p 0.0 1.0)"

definition camera_angle :: "real \<Rightarrow> real" where
  "camera_angle t = t * 0.12 + camera_orbit (phase t) * pi * 1.5"

text \<open>The angle during the first cycle, where the phase is \<open>t / 22\<close>.\<close>

definition angle_first :: "real \<Rightarrow> real" where
  "angle_first t = t * 0.12 + camera_orbit (t / 22) * pi * 1.5"

definition camera_y :: "real \<Rightarrow> real" where
  "camera_y t = 25 + sin (t * 0.25) * 6"

definition CameraRig_frame :: "bool \<Rightarrow> real \<Rightarrow> camera \<Rightarrow> camera" where
  "CameraRig_frame mounted t cam =
     (if \<not> mounted then cam
      else
        let radius = 90;
            angle = camera_angle t;
            y = camera_y t
        in \<lparr>cam_position = (cos angle * radius, y, sin angle * radius),
            cam_target = (0, 6, 0)\<rparr>)"

section \<open>Basic facts\<close>

lemma clamp01_range: "0 \<le> clamp01 x \<and> clamp01 x \<le> 1"
  by (simp add: clamp01_def)

lemma clamp01_id: "0 \<le> x \<Longrightarrow> x \<le> 1 \<Longrightarrow> clamp01 x = x"
  by (simp add: clamp01_def)

lemma clamp01_mono: "x \<le> y \<Longrightarrow> clamp01 x \<le> clamp01 y"
  by (simp add: clamp01_def min_def max_def)

lemma remap_range: "0 \<le> remap x a b \<and> remap x a b \<le> 1"
  by (simp add: remap_def clamp01_range)

lemma easeInOut_low: "t < 1 / 2 \<Longrightarrow> easeInOut t = 2 * t\<^sup>2"
  by (simp add: easeInOut_def power2_eq_square)

lemma easeInOut_high: "1 / 2 \<le> t \<Longrightarrow> easeInOut t = 1 - 2 * (1 - t)\<^sup>2"
  by (simp add: easeInOut_def power2_eq_square algebra_simps)

lemma easeInOut_range:
  assumes "0 \<le> t" and "t \<le> 1"
  shows "0 \<le> easeInOut t \<and> easeInOut t \<le> 1"
proof (cases "t < 1 / 2")
  case True
  have "t\<^sup>2 \<le> (1 / 2)\<^sup>2"
    using True assms by (intro power_mono) simp_all
  then have "2 * t\<^sup>2 \<le> 1"
    by (simp add: power2_eq_square)
  then show ?thesis
    using True by (simp add: easeInOut_low)
next
  case False
  then have h: "1 / 2 \<le> t" by simp
  have "(1 - t)\<^sup>2 \<le> (1 / 2)\<^sup>2"
    using h assms by (intro power_mono) simp_all
  then have "2 * (1 - t)\<^sup>2 \<le> 1"
    by (simp add: power2_eq_square)
  then show ?thesis
    using h by (simp add: easeInOut_high)
qed

lemma js_rem_nonneg: "0 \<le> a \<Longrightarrow> 0 < n \<Longrightarrow> js_rem a n = a - n * of_int (floor (a / n))"
  by (simp add: js_rem_def)

lemma phase_frac: "0 \<le> t \<Longrightarrow> phase t = frac (t / 22)"
  by (simp add: phase_def CYCLE_SECONDS_def js_rem_nonneg frac_def field_simps)

lemma construct_range: "0 \<le> construct' p \<and> construct' p \<le> 1"
  by (simp add: construct'_def remap_range)
lemma finish_range: "0 \<le> finish p \<and> finish p \<le> 1"
  by (simp add: finish_def remap_range)
lemma blueprint_appear_range: "0 \<le> blueprint_appear p \<and> blueprint_appear p \<le> 1"
  by (simp add: blueprint_appear_def clamp01_range)
lemma foundationRise_range: "0 \<le> foundationRise p \<and> foundationRise p \<le> 1"
  unfolding foundationRise_def by (intro easeInOut_range) (simp_all add: construct_range)
lemma frameRise_range: "0 \<le> frameRise p \<and> frameRise p \<le> 1"
  unfolding frameRise_def by (intro easeInOut_range) (simp_all add: clamp01_range)
lemma skinAppear_range: "0 \<le> skinAppear p \<and> skinAppear p \<le> 1"
  unfolding skinAppear_def by (intro easeInOut_range) (simp_all add: finish_range)

lemma easeInOut_mono:
  assumes "0 \<le> s" "s \<le> t" "t \<le> 1"
  shows "easeInOut s \<le> easeInOut t"
proof -
  consider "t < 1/2" | "s < 1/2" "1/2 \<le> t" | "1/2 \<le> s" by linarith
  then show ?thesis
  proof cases
    case 1
    have "s\<^sup>2 \<le> t\<^sup>2" using assms by (intro power_mono) simp_all
    then show ?thesis using 1 assms by (simp add: easeInOut_low)
  next
    case 2
    have "s\<^sup>2 \<le> (1/2)\<^sup>2" using assms 2 by (intro power_mono) simp_all
    moreover have "(1 - t)\<^sup>2 \<le> (1/2)\<^sup>2" using assms 2 by (intro power_mono) simp_all
    ultimately show ?thesis using 2 by (simp add: easeInOut_low easeInOut_high power2_eq_square)
  next
    case 3
    have "(1 - t)\<^sup>2 \<le> (1 - s)\<^sup>2" using assms by (intro power_mono) simp_all
    then show ?thesis using 3 assms by (simp add: easeInOut_high)
  qed
qed

lemma easeInOut_pos_iff:
  assumes "0 \<le> t" "t \<le> 1"
  shows "0 < easeInOut t \<longleftrightarrow> 0 < t"
proof (cases "t < 1 / 2")
  case True
  then show ?thesis using assms by (auto simp: easeInOut_low)
next
  case False
  then have h: "1 / 2 \<le> t" by simp
  have "(1 - t)\<^sup>2 \<le> (1 / 2)\<^sup>2"
    using h assms by (intro power_mono) simp_all
  then have "2 * (1 - t)\<^sup>2 < 1"
    by (simp add: power2_eq_square)
  then show ?thesis
    using h by (simp add: easeInOut_high)
qed

lemma frame_le_foundation: "frameRise p \<le> foundationRise p"
proof -
  have c: "0 \<le> construct' p" "construct' p \<le> 1" by (simp_all add: construct_range)
  have "clamp01 (construct' p * 1.1 - 0.15) \<le> construct' p"
    using c by (simp add: clamp01_def min_def max_def)
  then show ?thesis
    unfolding frameRise_def foundationRise_def
    using c by (intro easeInOut_mono) (simp_all add: clamp01_range)
qed

lemma remap_pos_iff: "a < b \<Longrightarrow> 0 < remap x a b \<longleftrightarrow> a < x"
  by (auto simp: remap_def clamp01_def max_def min_def field_simps)

lemma skinAppear_pos_iff: "0 < skinAppear p \<longleftrightarrow> 0.7 < p"
  unfolding skinAppear_def
  by (subst easeInOut_pos_iff) (simp_all add: finish_range, simp add: finish_def remap_pos_iff)

lemma foundationRise_pos_iff: "0 < foundationRise p \<longleftrightarrow> 0.4 < p"
  unfolding foundationRise_def
  by (subst easeInOut_pos_iff) (simp_all add: construct_range, simp add: construct'_def remap_pos_iff)

lemma frameRise_pos_iff: "0 < frameRise p \<longleftrightarrow> 97 / 220 < p"
proof -
  have "0 < frameRise p \<longleftrightarrow> 0 < clamp01 (construct' p * 1.1 - 0.15)"
    unfolding frameRise_def by (intro easeInOut_pos_iff) (simp_all add: clamp01_range)
  also have "\<dots> \<longleftrightarrow> 3 / 22 < construct' p"
    by (auto simp: clamp01_def max_def min_def)
  also have "\<dots> \<longleftrightarrow> 97 / 220 < p"
    by (auto simp: construct'_def remap_def clamp01_def max_def min_def field_simps)
  finally show ?thesis .
qed


subsection \<open>Continuity\<close>

lemma continuous_on_easeInOut: "continuous_on UNIV easeInOut"
proof -
  have "continuous_on ({.. 1 / 2} \<union> {1 / 2 ..})
          (\<lambda>t::real. if t < 1 / 2 then 2 * t * t else - 1 + (4 - 2 * t) * t)"
  proof (rule continuous_on_If)
    fix t :: real
    assume "t \<in> {.. 1 / 2}" "\<not> t < 1 / 2"
    then have t: "t = 1 / 2" by simp
    show "2 * t * t = - 1 + (4 - 2 * t) * t" unfolding t by simp
  qed (auto intro!: continuous_intros)
  moreover have "{.. 1 / 2} \<union> {1 / 2 ..} = (UNIV :: real set)"
    by auto
  moreover have "easeInOut = (\<lambda>t::real. if t < 1 / 2 then 2 * t * t else - 1 + (4 - 2 * t) * t)"
    by (rule ext) (simp add: easeInOut_def)
  ultimately show ?thesis by metis
qed

lemma isCont_easeInOut: "isCont easeInOut x"
  using continuous_on_easeInOut by (simp add: continuous_on_eq_continuous_at)

lemma isCont_easeInOut_o [continuous_intros]:
  "isCont f x \<Longrightarrow> isCont (\<lambda>x. easeInOut (f x)) x"
  using isCont_o2 [OF _ isCont_easeInOut] by blast

lemma isCont_clamp01 [continuous_intros]: "isCont f x \<Longrightarrow> isCont (\<lambda>x. clamp01 (f x)) x"
  unfolding clamp01_def by (intro continuous_intros)

lemma isCont_remap [continuous_intros]: "a \<noteq> b \<Longrightarrow> isCont (\<lambda>p. remap p a b) x"
  unfolding remap_def by (intro continuous_intros) simp_all

lemma left_limit: "isCont f (a::real) \<Longrightarrow> f a = l \<Longrightarrow> (f \<longlongrightarrow> l) (at_left a)"
  using continuous_within continuous_at_imp_continuous_at_within by blast

subsection \<open>The frame callbacks at a phase\<close>

lemma phase_5: "phase 5 = 5 / 22"
  by (simp add: phase_def CYCLE_SECONDS_def js_rem_def)
lemma phase_20: "phase 20 = 10 / 11"
  by (simp add: phase_def CYCLE_SECONDS_def js_rem_def)

lemma blueprint_pulse_ge: "0.2 \<le> blueprint_pulse t"
  unfolding blueprint_pulse_def using sin_ge_minus_one [of "t * 2.2"] by linarith

lemma blueprint_opacity: "opacity (BlueprintOverlay_frame t mat) = blueprint_appear (phase t) * blueprint_pulse t"
  by (simp add: BlueprintOverlay_frame_def Let_def)

lemma blueprint_appear_late: "0.4 \<le> p \<Longrightarrow> blueprint_appear p = 1"
  by (simp add: blueprint_appear_def remap_def clamp01_def)

lemma sMat_opacity: "opacity (sMat (Buildings_frame True lay t b)) = clamp01 (0.15 + 0.85 * skinAppear (phase t))"
  by (simp add: Buildings_frame_def Let_def)

lemma skin_scale_hidden:
  "sa \<le> 0 \<Longrightarrow> inst_scale (skin_matrix sa h xz) = (2.8, 0.01, 2.8)"
  by (simp add: skin_matrix_def Let_def clamp01_def)

lemma skin_instances_frame:
  "skin_instances (Buildings_frame True lay t b) =
     map (\<lambda>(xz, h). skin_matrix (skinAppear (phase t)) h xz) (zip (positions lay) (heights lay))"
  by (simp add: Buildings_frame_def Let_def)

lemma phase_cycle_start: "phase (22 * of_nat k) = 0"
  by (simp add: phase_def CYCLE_SECONDS_def js_rem_def)

lemma crane_opacity_pos_iff: "0 < crane_opacity p \<longleftrightarrow> 0.4 < p \<and> p < 1"
proof -
  have a: "0 \<le> remap p 0.4 0.7" and b: "remap p 0.7 1.0 \<le> 1"
    by (simp_all add: remap_range)
  have "0 < crane_opacity p \<longleftrightarrow> 0 < remap p 0.4 0.7 \<and> remap p 0.7 1.0 < 1"
    using a b by (auto simp: crane_opacity_def Let_def zero_less_mult_iff)
  also have "\<dots> \<longleftrightarrow> 0.4 < p \<and> p < 1"
    by (auto simp: remap_def clamp01_def min_def max_def field_simps)
  finally show ?thesis .
qed

subsection \<open>Limits at the loop point\<close>

lemma not_left_limit:
  "(f \<longlongrightarrow> l) (at_left (1::real)) \<Longrightarrow> l \<noteq> (v::real) \<Longrightarrow> \<not> (f \<longlongrightarrow> v) (at_left 1)"
  using tendsto_unique [of "at_left (1::real)" f] by auto


lemma blueprint_appear_limit: "(blueprint_appear \<longlongrightarrow> 1) (at_left 1)"
proof (rule left_limit)
  show "isCont blueprint_appear 1"
    unfolding blueprint_appear_def by (intro continuous_intros) simp_all
  show "blueprint_appear 1 = 1"
    by (simp add: blueprint_appear_def remap_def clamp01_def)
qed

lemma construct_limit: "(construct' \<longlongrightarrow> 1) (at_left 1)"
proof (rule left_limit)
  show "isCont construct' 1"
    unfolding construct'_def by (intro continuous_intros) simp_all
  show "construct' 1 = 1"
    by (simp add: construct'_def remap_def clamp01_def)
qed

lemma finish_limit: "(finish \<longlongrightarrow> 1) (at_left 1)"
proof (rule left_limit)
  show "isCont finish 1"
    unfolding finish_def by (intro continuous_intros) simp_all
  show "finish 1 = 1"
    by (simp add: finish_def remap_def clamp01_def)
qed

lemma foundationRise_limit: "(foundationRise \<longlongrightarrow> 1) (at_left 1)"
proof (rule left_limit)
  show "isCont foundationRise 1"
    unfolding foundationRise_def construct'_def by (intro continuous_intros) simp_all
  show "foundationRise 1 = 1"
    by (simp add: foundationRise_def construct'_def remap_def clamp01_def easeInOut_def)
qed

lemma frameRise_limit: "(frameRise \<longlongrightarrow> 199 / 200) (at_left 1)"
proof (rule left_limit)
  show "isCont frameRise 1"
    unfolding frameRise_def construct'_def by (intro continuous_intros) simp_all
  show "frameRise 1 = 199 / 200"
    by (simp add: frameRise_def construct'_def remap_def clamp01_def easeInOut_def)
qed

lemma skinAppear_limit: "(skinAppear \<longlongrightarrow> 1) (at_left 1)"
proof (rule left_limit)
  show "isCont skinAppear 1"
    unfolding skinAppear_def finish_def by (intro continuous_intros) simp_all
  show "skinAppear 1 = 1"
    by (simp add: skinAppear_def finish_def remap_def clamp01_def easeInOut_def)
qed

lemma progress_at_zero:
  "blueprint_appear 0 = 0" "construct' 0 = 0" "finish 0 = 0"
  "foundationRise 0 = 0" "frameRise 0 = 0" "skinAppear 0 = 0"
  by (simp_all add: blueprint_appear_def construct'_def finish_def foundationRise_def
      frameRise_def skinAppear_def remap_def clamp01_def easeInOut_def)

subsection \<open>Footprints and roads\<close>

lemma js_rem_int_zero_iff: "js_rem (of_int x) 16 = 0 \<longleftrightarrow> 16 dvd x"
proof
  assume h: "js_rem (of_int x) 16 = 0"
  define k where "k = (if 0 \<le> real_of_int x / 16 then floor (real_of_int x / 16) else ceiling (real_of_int x / 16))"
  have "real_of_int x = 16 * of_int k"
    using h by (simp add: js_rem_def k_def)
  then have "real_of_int x = of_int (16 * k)" by simp
  then have "x = 16 * k" by (simp only: of_int_eq_iff)
  then show "16 dvd x" by simp
next
  assume "16 dvd x"
  then obtain m where m: "x = 16 * m" by (auto simp: dvd_def)
  show "js_rem (of_int x) 16 = 0"
    by (simp add: js_rem_def m)
qed

lemma jitter_bound: "0 \<le> r \<Longrightarrow> r < 1 \<Longrightarrow> \<bar>r * 1.5 - 0.75\<bar> \<le> 3 / (4::real)"
proof -
  assume r: "0 \<le> r" "r < 1"
  have e: "r * 1.5 - 0.75 = r * (3 / 2) - 3 / 4" by simp
  show ?thesis unfolding e abs_le_iff using r by (intro conjI) linarith+
qed

lemma footprint_cell_near:
  assumes rnd: "\<forall>k. 0 \<le> rnd k \<and> rnd k < 1"
    and x: "- 40 \<le> x" "x \<le> 40" "8 dvd x" and z: "- 40 \<le> z" "z \<le> 40" "8 dvd z"
    and s: "\<forall>pq \<in> set (positions s). near_cell pq"
  shows "\<forall>pq \<in> set (positions (footprint_cell rnd x z s)). near_cell pq"
proof (cases "js_rem (of_int x) 16 = 0 \<or> js_rem (of_int z) 16 = 0")
  case True
  then show ?thesis using s by (simp add: footprint_cell_def)
next
  case False
  have jx: "\<bar>rnd (draws s) * 1.5 - 0.75\<bar> \<le> 3 / 4"
    using rnd by (intro jitter_bound) simp_all
  have jz: "\<bar>rnd (draws s + 1) * 1.5 - 0.75\<bar> \<le> 3 / 4"
    using rnd by (intro jitter_bound) simp_all
  have "near_cell (of_int x + (rnd (draws s) * 1.5 - 0.75), of_int z + (rnd (draws s + 1) * 1.5 - 0.75))"
    unfolding near_cell_def
    apply (rule exI [of _ x], rule exI [of _ z])
    using False x z jx jz by simp
  then show ?thesis
    using False s by (simp add: footprint_cell_def Let_def)
qed

lemma footprints_z_near:
  assumes "\<forall>k. 0 \<le> rnd k \<and> rnd k < 1" "- 40 \<le> x" "x \<le> 40" "8 dvd x"
  shows "- 40 \<le> z \<Longrightarrow> 8 dvd z \<Longrightarrow> \<forall>pq \<in> set (positions s). near_cell pq \<Longrightarrow>
     \<forall>pq \<in> set (positions (footprints_z rnd x z s)). near_cell pq"
  using assms
proof (induction rnd x z s rule: footprints_z.induct)
  case (1 rnd x z s)
  show ?case
  proof (cases "z \<le> 40")
    case True
    have c: "\<forall>pq \<in> set (positions (footprint_cell rnd x z s)). near_cell pq"
      using "1.prems" True by (intro footprint_cell_near) simp_all
    have "\<forall>pq \<in> set (positions (footprints_z rnd x (z + 8) (footprint_cell rnd x z s))). near_cell pq"
      using "1.prems" True c by (intro "1.IH") simp_all
    then show ?thesis
      using True by (subst footprints_z.simps) simp
  next
    case False
    then show ?thesis using "1.prems" by (subst footprints_z.simps) simp
  qed
qed

lemma footprints_x_near:
  assumes "\<forall>k. 0 \<le> rnd k \<and> rnd k < 1"
  shows "- 40 \<le> x \<Longrightarrow> 8 dvd x \<Longrightarrow> \<forall>pq \<in> set (positions s). near_cell pq \<Longrightarrow>
     \<forall>pq \<in> set (positions (footprints_x rnd x s)). near_cell pq"
  using assms
proof (induction rnd x s rule: footprints_x.induct)
  case (1 rnd x s)
  show ?case
  proof (cases "x \<le> 40")
    case True
    have c: "\<forall>pq \<in> set (positions (footprints_z rnd x (- 40) s)). near_cell pq"
      using "1.prems" True by (intro footprints_z_near) simp_all
    have "\<forall>pq \<in> set (positions (footprints_x rnd (x + 8) (footprints_z rnd x (- 40) s))). near_cell pq"
      using "1.prems" True c by (intro "1.IH") simp_all
    then show ?thesis
      using True by (subst footprints_x.simps) simp
  next
    case False
    then show ?thesis using "1.prems" by (subst footprints_x.simps) simp
  qed
qed

lemma footprints_near:
  "\<forall>k. 0 \<le> rnd k \<and> rnd k < 1 \<Longrightarrow> \<forall>pq \<in> set (positions (footprints rnd)). near_cell pq"
  unfolding footprints_def by (intro footprints_x_near) simp_all

lemma roads_loop_strips:
  "16 dvd i \<Longrightarrow> \<forall>r \<in> set acc. road_strip r \<Longrightarrow> \<forall>r \<in> set (roads_loop i acc). road_strip r"
proof (induction i acc rule: roads_loop.induct)
  case (1 i acc)
  show ?case
  proof (cases "i \<le> 48")
    case True
    have "road_strip \<lparr>mesh_position = (0, 0.02, of_int i), extent_x = 200, extent_z = 3.2\<rparr>"
      "road_strip \<lparr>mesh_position = (of_int i, 0.02, 0), extent_x = 3.2, extent_z = 200\<rparr>"
      unfolding road_strip_def using "1.prems"(1) by (intro exI [of _ i]; simp)+
    then have "\<forall>r \<in> set (roads_loop (i + 16) (acc @
            [\<lparr>mesh_position = (0, 0.02, of_int i), extent_x = 200, extent_z = 3.2\<rparr>,
             \<lparr>mesh_position = (of_int i, 0.02, 0), extent_x = 3.2, extent_z = 200\<rparr>])). road_strip r"
      using "1.prems" True by (intro "1.IH") auto
    then show ?thesis
      using True by (subst roads_loop.simps) simp
  next
    case False
    then show ?thesis using "1.prems" by (subst roads_loop.simps) simp
  qed
qed

lemma roads_strips: "\<forall>r \<in> set roads. road_strip r"
  unfolding roads_def by (intro roads_loop_strips) simp_all

lemma far_from_line:
  fixes p :: real
  assumes "8 dvd z" "\<not> 16 dvd z" "16 dvd i" "\<bar>p - of_int z\<bar> \<le> 3 / 4"
  shows "3 < \<bar>p - of_int i\<bar>"
proof -
  have "8 \<le> \<bar>z - i\<bar>"
    using assms(1-3) by presburger
  then have "real_of_int 8 \<le> real_of_int \<bar>z - i\<bar>"
    by (simp only: of_int_le_iff)
  then have "8 \<le> \<bar>real_of_int z - real_of_int i\<bar>"
    by simp
  then show ?thesis
    using assms(4) by linarith
qed

lemma near_cell_clear_of_road:
  assumes "near_cell pq" "road_strip r"
  shows "\<not> building_overlaps_road pq r"
proof -
  obtain x z where x: "8 dvd x" "\<not> 16 dvd x" "\<bar>fst pq - of_int x\<bar> \<le> 3 / 4"
    and z: "8 dvd z" "\<not> 16 dvd z" "\<bar>snd pq - of_int z\<bar> \<le> 3 / 4"
    using assms(1) unfolding near_cell_def js_rem_int_zero_iff by blast
  obtain i where i: "16 dvd i"
    and r: "mesh_position r = (0, 0.02, of_int i) \<and> extent_x r = 200 \<and> extent_z r = 3.2 \<or>
      mesh_position r = (of_int i, 0.02, 0) \<and> extent_x r = 3.2 \<and> extent_z r = 200"
    using assms(2) unfolding road_strip_def by blast
  have fx: "3 < \<bar>fst pq - of_int i\<bar>" using far_from_line [OF x(1,2) i x(3)] .
  have fz: "3 < \<bar>snd pq - of_int i\<bar>" using far_from_line [OF z(1,2) i z(3)] .
  from r show ?thesis
  proof
    assume "mesh_position r = (0, 0.02, of_int i) \<and> extent_x r = 200 \<and> extent_z r = 3.2"
    then show ?thesis using fz by (simp add: building_overlaps_road_def)
  next
    assume "mesh_position r = (of_int i, 0.02, 0) \<and> extent_x r = 3.2 \<and> extent_z r = 200"
    then show ?thesis using fx by (simp add: building_overlaps_road_def)
  qed
qed


lemma cell_len: "length (positions (footprint_cell rnd x z s)) =
   (if 16 dvd x \<or> 16 dvd z then 0 else 1) + length (positions s)"
  by (simp add: footprint_cell_def Let_def js_rem_int_zero_iff)

lemma row_len: "length (positions (footprints_z rnd x (- 40) s)) = (if 16 dvd x then 0 else 6) + length (positions s)"
  by (simp add: footprints_z.simps cell_len)

lemma footprints_count: "length (positions (footprints rnd)) = 36"
  by (simp add: footprints_def footprints_x.simps row_len)


subsection \<open>The camera\<close>

lemma pi_ge_three: "3 \<le> pi"
proof -
  have "sin (pi / 6) \<le> pi / 6"
    by (rule sin_x_le_x) simp
  then show ?thesis
    by (simp add: sin_30)
qed

lemma phase_first_cycle: "0 \<le> t \<Longrightarrow> t < 22 \<Longrightarrow> phase t = t / 22"
proof -
  assume t: "0 \<le> t" "t < 22"
  then have "floor (t / 22) = 0" by (simp add: floor_eq_iff)
  then show ?thesis
    using t by (simp add: phase_def CYCLE_SECONDS_def js_rem_nonneg)
qed

lemma phase_22: "phase 22 = 0"
  by (simp add: phase_def CYCLE_SECONDS_def js_rem_def)

lemma isCont_camera_orbit: "isCont f x \<Longrightarrow> isCont (\<lambda>x. camera_orbit (f x)) x"
  unfolding camera_orbit_def remap_def by (intro continuous_intros) simp_all

lemma isCont_angle_first: "isCont angle_first x"
  unfolding angle_first_def by (intro continuous_intros isCont_camera_orbit) simp_all

lemma angle_first_22: "angle_first 22 = 2.64 + 1.5 * pi"
  by (simp add: angle_first_def camera_orbit_def remap_def clamp01_def easeInOut_def)

lemma camera_angle_22: "camera_angle 22 = 2.64 + 0.3 * pi"
  by (simp add: camera_angle_def phase_22 camera_orbit_def remap_def clamp01_def easeInOut_def)

lemma camera_angle_eventually: "eventually (\<lambda>t. camera_angle t = angle_first t) (at_left 22)"
proof -
  have "eventually (\<lambda>t::real. t \<in> {0<..<22}) (at_left 22)"
    by (rule eventually_at_left_real) simp
  then show ?thesis
  proof (rule eventually_mono)
    fix t :: real
    assume "t \<in> {0<..<22}"
    then show "camera_angle t = angle_first t"
      by (simp add: camera_angle_def angle_first_def phase_first_cycle)
  qed
qed

lemma camera_angle_left_limit: "(camera_angle \<longlongrightarrow> 2.64 + 1.5 * pi) (at_left 22)"
proof -
  have "(angle_first \<longlongrightarrow> 2.64 + 1.5 * pi) (at_left 22)"
    using isCont_angle_first angle_first_22 by (rule left_limit)
  then show ?thesis
    using camera_angle_eventually tendsto_cong by blast
qed

lemma camera_angle_jump: "\<not> isCont camera_angle 22"
proof
  assume "isCont camera_angle 22"
  then have "(camera_angle \<longlongrightarrow> camera_angle 22) (at_left 22)"
    by (rule left_limit) simp
  then have "camera_angle 22 = 2.64 + 1.5 * pi"
    using camera_angle_left_limit tendsto_unique [of "at_left (22::real)"] by auto
  then show False
    by (simp add: camera_angle_22)
qed

lemma cos_neg: "pi / 2 < x \<Longrightarrow> x < 3 * pi / 2 \<Longrightarrow> cos x < 0"
proof -
  assume x: "pi / 2 < x" "x < 3 * pi / 2"
  have "0 < cos (x - pi)"
    using x by (intro cos_gt_zero_pi) simp_all
  moreover have "cos (x - pi + pi) = - cos (x - pi)"
    by (rule cos_periodic_pi)
  ultimately show ?thesis by simp
qed

lemma cos_after_jump: "cos (2.64 + 0.3 * pi) < 0"
  using pi_ge_three pi_less_4 by (intro cos_neg) simp_all

lemma cos_before_jump: "0 < cos (2.64 + 1.5 * pi)"
proof -
  have "cos (2.64 + 3 / 2 * pi) = cos 2.64 * cos (3 / 2 * pi) - sin 2.64 * sin (3 / 2 * pi)"
    by (rule cos_add)
  also have "\<dots> = sin 2.64"
    by (simp only: cos_3over2_pi sin_3over2_pi)
  finally have "cos (2.64 + 3 / 2 * pi) = sin 2.64" .
  moreover have "0 < sin (2.64::real)"
    using pi_ge_three by (intro sin_gt_zero) simp_all
  ultimately show ?thesis by simp
qed

lemma camera_x: "fst (cam_position (CameraRig_frame True t cam)) = cos (camera_angle t) * 90"
  by (simp add: CameraRig_frame_def Let_def)

lemma camera_x_jump: "\<not> isCont (\<lambda>t. fst (cam_position (CameraRig_frame True t cam))) 22"
proof
  assume "isCont (\<lambda>t. fst (cam_position (CameraRig_frame True t cam))) 22"
  then have "isCont (\<lambda>t. cos (camera_angle t) * 90) 22"
    by (simp add: camera_x)
  then have "((\<lambda>t. cos (camera_angle t) * 90) \<longlongrightarrow> cos (camera_angle 22) * 90) (at_left 22)"
    by (rule left_limit) simp
  moreover have "((\<lambda>t. cos (camera_angle t) * 90) \<longlongrightarrow> cos (2.64 + 1.5 * pi) * 90) (at_left 22)"
    by (intro tendsto_intros camera_angle_left_limit)
  ultimately have "cos (camera_angle 22) * 90 = cos (2.64 + 1.5 * pi) * 90"
    using tendsto_unique [of "at_left (22::real)"] by auto
  then show False
    using cos_after_jump cos_before_jump by (simp add: camera_angle_22)
qed

lemma camera_y_range: "19 \<le> camera_y t \<and> camera_y t \<le> 31"
  unfolding camera_y_def
  using sin_ge_minus_one [of "t * 0.25"] sin_le_one [of "t * 0.25"] by linarith

lemma camera_radius: "(cos a * 90)\<^sup>2 + (sin a * 90)\<^sup>2 = (90::real)\<^sup>2"
proof -
  have "(cos a * 90)\<^sup>2 + (sin a * 90)\<^sup>2 = ((cos a)\<^sup>2 + (sin a)\<^sup>2) * 90\<^sup>2"
    by (simp only: power_mult_distrib distrib_right)
  also have "\<dots> = 90\<^sup>2"
    by (simp only: sin_cos_squared_add2 mult_1)
  finally show ?thesis .
qed

section \<open>The phase\<close>

text \<open>
  C8. For every elapsed time \<open>t \<ge> 0\<close> the phase of a frame is \<open>(t mod 22) / 22\<close>, where
  \<open>t mod 22\<close> is \<open>t - 22 * floor (t / 22)\<close>; it lies in \<open>[0, 1)\<close>, and it is periodic:
  \<open>phase (t + 22) = phase t\<close>.
\<close>

theorem phase_periodic:
  "0 \<le> t \<Longrightarrow>
     CYCLE_SECONDS = 22 \<and>
     phase t = (t - 22 * of_int (floor (t / 22))) / 22 \<and>
     0 \<le> phase t \<and> phase t < 1 \<and>
     phase (t + 22) = phase t"
proof -
  assume t: "0 \<le> t"
  have "phase t = (t - 22 * of_int (floor (t / 22))) / 22"
    using t by (simp add: phase_def CYCLE_SECONDS_def js_rem_nonneg)
  moreover have "0 \<le> phase t" "phase t < 1"
    using t by (simp_all add: phase_frac frac_lt_1)
  moreover have "frac (t / 22 + 1) = frac (t / 22)"
    by (simp add: frac_def)
  then have "phase (t + 22) = phase t"
    using t by (simp add: phase_frac add_divide_distrib)
  ultimately show ?thesis
    by (simp add: CYCLE_SECONDS_def)
qed

theorem phase_periodic_witness:
  "(0::real) \<le> 50 \<and> phase 50 = 3 / 11 \<and> 0 \<le> phase 50 \<and> phase 50 < 1 \<and> phase (50 + 22) = phase 50"
  using phase_periodic [of 50] by (simp add: phase_def CYCLE_SECONDS_def js_rem_def)

section \<open>Progress values\<close>

text \<open>
  C7. For every phase \<open>p\<close>, each derived progress value (the remap outputs \<open>construct\<close>,
  \<open>finish\<close> and the blueprint's \<open>appear\<close>, and the eased values \<open>foundationRise\<close>,
  \<open>frameRise\<close> and \<open>skinAppear\<close>) lies in \<open>[0, 1]\<close>; \<open>remap x a b\<close> with \<open>a < b\<close> lies in
  \<open>[0, 1]\<close> for every real \<open>x\<close>, and \<open>easeInOut\<close> maps \<open>[0, 1]\<close> into \<open>[0, 1]\<close>.
\<close>

theorem progress_values_in_unit_interval:
  "(0 \<le> construct' p \<and> construct' p \<le> 1) \<and>
   (0 \<le> finish p \<and> finish p \<le> 1) \<and>
   (0 \<le> blueprint_appear p \<and> blueprint_appear p \<le> 1) \<and>
   (0 \<le> foundationRise p \<and> foundationRise p \<le> 1) \<and>
   (0 \<le> frameRise p \<and> frameRise p \<le> 1) \<and>
   (0 \<le> skinAppear p \<and> skinAppear p \<le> 1) \<and>
   (a < b \<longrightarrow> 0 \<le> remap x a b \<and> remap x a b \<le> 1) \<and>
   (0 \<le> t \<and> t \<le> 1 \<longrightarrow> 0 \<le> easeInOut t \<and> easeInOut t \<le> 1)"
  using construct_range [of p] finish_range [of p] blueprint_appear_range [of p]
    foundationRise_range [of p] frameRise_range [of p] skinAppear_range [of p]
    remap_range [of x a b] easeInOut_range [of t]
  by blast

theorem progress_values_in_unit_interval_witness:
  "(0.4::real) < 0.7 \<and> remap 0.5 0.4 0.7 = 1 / 3 \<and>
   0 \<le> remap 0.5 0.4 0.7 \<and> remap 0.5 0.4 0.7 \<le> 1 \<and>
   (0::real) \<le> 1 / 4 \<and> (1 / 4::real) \<le> 1 \<and> easeInOut (1 / 4) = 1 / 8 \<and>
   0 \<le> easeInOut (1 / 4) \<and> easeInOut (1 / 4) \<le> 1"
  using progress_values_in_unit_interval [of "1 / 2" "0.4" "0.7" "0.5" "1 / 4"]
  by (simp add: remap_def clamp01_def easeInOut_def)

text \<open>
  C6. For every phase in \<open>[0, 1)\<close>, \<open>frameRise\<close> is at most \<open>foundationRise\<close>; the
  foundations are above zero exactly after phase 0.4, the frames exactly after phase
  \<open>97 / 220\<close> (about 0.44), and the skins exactly after phase 0.7: foundations, then
  frames, then skins, each the eased value of its own sub-range of the phase.
\<close>

theorem frames_lag_foundations_and_skins_lag_frames:
  "0 \<le> p \<Longrightarrow> p < 1 \<Longrightarrow>
     frameRise p \<le> foundationRise p \<and>
     (0 < foundationRise p \<longleftrightarrow> 0.4 < p) \<and>
     (0 < frameRise p \<longleftrightarrow> 97 / 220 < p) \<and>
     (0 < skinAppear p \<longleftrightarrow> 0.7 < p) \<and>
     foundationRise p = easeInOut (remap p 0.4 0.7) \<and>
     frameRise p = easeInOut (clamp01 (remap p 0.4 0.7 * 1.1 - 0.15)) \<and>
     skinAppear p = easeInOut (remap p 0.7 1.0)"
  using frame_le_foundation [of p] foundationRise_pos_iff [of p] frameRise_pos_iff [of p]
    skinAppear_pos_iff [of p]
  by (simp add: foundationRise_def frameRise_def skinAppear_def construct'_def finish_def)

theorem frames_lag_foundations_and_skins_lag_frames_witness:
  "(0::real) \<le> 1 / 2 \<and> (1 / 2::real) < 1 \<and>
   foundationRise (1 / 2) = 2 / 9 \<and> frameRise (1 / 2) = 169 / 1800 \<and> skinAppear (1 / 2) = 0 \<and>
   frameRise (1 / 2) \<le> foundationRise (1 / 2) \<and> 0 < frameRise (1 / 2)"
  using frames_lag_foundations_and_skins_lag_frames [of "1 / 2"]
  by (simp add: foundationRise_def frameRise_def skinAppear_def construct'_def finish_def
      remap_def clamp01_def easeInOut_def)

section \<open>The scenario at 5 and 20 seconds\<close>

text \<open>
  C1. With a cycle of 22 seconds, at \<open>t = 5\<close> (phase \<open>5 / 22\<close>) the opacity that the frame
  callback gives the blueprint grid is above zero. At \<open>t = 20\<close> (phase \<open>10 / 11\<close>) the skin
  material has opacity \<open>919 / 1089\<close> (about 0.84), and the blueprint grid has opacity
  \<open>0.6 + 0.4 * sin 44\<close>, which is at least 0.2 and so not zero: after phase 0.4 the grid
  keeps pulsing instead of having faded out.
\<close>

theorem scenario_t5_t20:
  "phase 5 = 5 / 22 \<and>
   opacity (BlueprintOverlay_frame 5 mat) = 3 / 22 * (0.6 + 0.4 * sin 11) \<and>
   0 < opacity (BlueprintOverlay_frame 5 mat) \<and>
   phase 20 = 10 / 11 \<and>
   opacity (sMat (Buildings_frame True lay 20 b)) = 919 / 1089 \<and>
   opacity (BlueprintOverlay_frame 20 mat) = 0.6 + 0.4 * sin 44 \<and>
   0.2 \<le> opacity (BlueprintOverlay_frame 20 mat)"
proof -
  have a5: "blueprint_appear (5 / 22) = 3 / 22"
    by (simp add: blueprint_appear_def remap_def clamp01_def)
  have o5: "opacity (BlueprintOverlay_frame 5 mat) = 3 / 22 * (0.6 + 0.4 * sin 11)"
    by (simp add: blueprint_opacity phase_5 a5 blueprint_pulse_def)
  have "0 < 3 / 22 * blueprint_pulse 5"
    using blueprint_pulse_ge [of 5] by simp
  then have p5: "0 < opacity (BlueprintOverlay_frame 5 mat)"
    by (simp add: blueprint_opacity phase_5 a5)
  have o20: "opacity (BlueprintOverlay_frame 20 mat) = blueprint_pulse 20"
    by (simp add: blueprint_opacity phase_20 blueprint_appear_late)
  have s20: "opacity (sMat (Buildings_frame True lay 20 b)) = 919 / 1089"
    by (simp add: sMat_opacity phase_20 skinAppear_def finish_def remap_def clamp01_def easeInOut_def)
  show ?thesis
    using o5 p5 o20 s20 blueprint_pulse_ge [of 20]
    by (simp add: phase_5 phase_20 blueprint_pulse_def)
qed

section \<open>The blueprint grid after its window\<close>

text \<open>
  C3. At every elapsed time whose phase is at least 0.4, the blueprint's \<open>appear\<close> value is 1
  and the opacity of the grid is the pulse \<open>0.6 + 0.4 * sin (2.2 * t)\<close>, at least 0.2: the
  grid fades in between phases 0.2 and 0.4 and is never faded out again.
\<close>

theorem blueprint_opacity_late_phase:
  "0.4 \<le> phase t \<Longrightarrow>
     opacity (BlueprintOverlay_frame t mat) = blueprint_pulse t \<and>
     0.2 \<le> opacity (BlueprintOverlay_frame t mat)"
  using blueprint_pulse_ge [of t] by (simp add: blueprint_opacity blueprint_appear_late)

theorem blueprint_opacity_late_phase_witness:
  "(0.4::real) \<le> phase 10 \<and>
   0.2 \<le> opacity (BlueprintOverlay_frame 10
      (initial_material 0x4c86ff))"
  using blueprint_opacity_late_phase [of 10 "(initial_material 0x4c86ff)"]
  by (simp add: phase_def CYCLE_SECONDS_def js_rem_def)

section \<open>The loop point\<close>

text \<open>
  C2. Each derived progress value is 0 at phase 0, while its limit as the phase approaches 1
  from below is 1 (\<open>199 / 200\<close> for \<open>frameRise\<close>): no value at the end of a cycle converges
  to its value at the start of the cycle.
\<close>

theorem loop_point_progress_values:
  "(blueprint_appear 0 = 0 \<and> (blueprint_appear \<longlongrightarrow> 1) (at_left 1)
      \<and> \<not> (blueprint_appear \<longlongrightarrow> blueprint_appear 0) (at_left 1)) \<and>
   (construct' 0 = 0 \<and> (construct' \<longlongrightarrow> 1) (at_left 1)
      \<and> \<not> (construct' \<longlongrightarrow> construct' 0) (at_left 1)) \<and>
   (finish 0 = 0 \<and> (finish \<longlongrightarrow> 1) (at_left 1)
      \<and> \<not> (finish \<longlongrightarrow> finish 0) (at_left 1)) \<and>
   (foundationRise 0 = 0 \<and> (foundationRise \<longlongrightarrow> 1) (at_left 1)
      \<and> \<not> (foundationRise \<longlongrightarrow> foundationRise 0) (at_left 1)) \<and>
   (frameRise 0 = 0 \<and> (frameRise \<longlongrightarrow> 199 / 200) (at_left 1)
      \<and> \<not> (frameRise \<longlongrightarrow> frameRise 0) (at_left 1)) \<and>
   (skinAppear 0 = 0 \<and> (skinAppear \<longlongrightarrow> 1) (at_left 1)
      \<and> \<not> (skinAppear \<longlongrightarrow> skinAppear 0) (at_left 1))"
  using not_left_limit [OF blueprint_appear_limit, of 0] not_left_limit [OF construct_limit, of 0]
    not_left_limit [OF finish_limit, of 0] not_left_limit [OF foundationRise_limit, of 0]
    not_left_limit [OF frameRise_limit, of 0] not_left_limit [OF skinAppear_limit, of 0]
  by (simp add: progress_at_zero blueprint_appear_limit construct_limit finish_limit
      foundationRise_limit frameRise_limit skinAppear_limit)

text \<open>
  C10. The opacity that the frame callback gives the crane material is
  \<open>0.8 * remap phase 0.4 0.7 * (1 - remap phase 0.7 1.0)\<close>; it is 0 at phase 0 (at the start
  of every cycle), tends to 0 as the phase approaches 1, and is above zero exactly for
  phases strictly between 0.4 and 1.
\<close>

theorem crane_opacity_loop_point:
  "opacity (crane_mat (SimpleCranes_frame True t c)) =
     0.8 * remap (phase t) 0.4 0.7 * (1 - remap (phase t) 0.7 1.0) \<and>
   crane_opacity 0 = 0 \<and>
   opacity (crane_mat (SimpleCranes_frame True (22 * of_nat k) c)) = 0 \<and>
   (crane_opacity \<longlongrightarrow> 0) (at_left 1) \<and>
   (0 < crane_opacity p \<longleftrightarrow> 0.4 < p \<and> p < 1)"
proof -
  have z: "crane_opacity 0 = 0"
    by (simp add: crane_opacity_def remap_def clamp01_def)
  have "(crane_opacity \<longlongrightarrow> 0) (at_left 1)"
  proof (rule left_limit)
    show "isCont crane_opacity 1"
      unfolding crane_opacity_def Let_def by (intro continuous_intros) simp_all
    show "crane_opacity 1 = 0"
      by (simp add: crane_opacity_def remap_def clamp01_def)
  qed
  then show ?thesis
    using z crane_opacity_pos_iff [of p]
    by (simp add: SimpleCranes_frame_def Let_def phase_cycle_start) (simp add: crane_opacity_def)
qed

section \<open>The skins\<close>

text \<open>
  C9. At every elapsed time the opacity of the skin material is
  \<open>clamp01 (0.15 + 0.85 * skinAppear)\<close>, hence at least 0.15. Up to phase 0.7 it is exactly
  0.15, and every skin instance then has the vertical scale 0.01 (with the full 2.8 by 2.8
  ground extent).
\<close>

theorem skin_opacity_floor:
  "opacity (sMat (Buildings_frame True lay t b)) = clamp01 (0.15 + 0.85 * skinAppear (phase t)) \<and>
   0.15 \<le> opacity (sMat (Buildings_frame True lay t b)) \<and>
   (phase t \<le> 0.7 \<longrightarrow>
      opacity (sMat (Buildings_frame True lay t b)) = 0.15 \<and>
      (\<forall>m \<in> set (skin_instances (Buildings_frame True lay t b)). inst_scale m = (2.8, 0.01, 2.8)))"
proof -
  have r: "0 \<le> skinAppear (phase t)" "skinAppear (phase t) \<le> 1"
    by (simp_all add: skinAppear_range)
  then have ge: "0.15 \<le> clamp01 (0.15 + 0.85 * skinAppear (phase t))"
    by (simp add: clamp01_def)
  have early: "skinAppear (phase t) = 0" if "phase t \<le> 0.7"
    using that skinAppear_pos_iff [of "phase t"] r by simp
  have "opacity (sMat (Buildings_frame True lay t b)) = 0.15" if "phase t \<le> 0.7"
    using early [OF that] by (simp add: sMat_opacity clamp01_def)
  moreover have "inst_scale m = (2.8, 0.01, 2.8)"
    if "phase t \<le> 0.7" and "m \<in> set (skin_instances (Buildings_frame True lay t b))" for m
    using that(2) early [OF that(1)] by (auto simp: skin_instances_frame skin_scale_hidden)
  ultimately show ?thesis
    using ge by (simp add: sMat_opacity)
qed

theorem skin_opacity_floor_witness:
  "phase 5 \<le> 0.7 \<and>
   opacity (sMat (Buildings_frame True \<lparr>positions = [(8, 8)], heights = [10], draws = 3\<rparr> 5
      \<lparr>foundation_instances = [], frame_instances = [], skin_instances = [],
       fdMat = initial_material 0xffffff, fMat = initial_material 0xffffff, sMat = initial_material 0xffffff\<rparr>)) = 0.15 \<and>
   skin_instances (Buildings_frame True \<lparr>positions = [(8, 8)], heights = [10], draws = 3\<rparr> 5
      \<lparr>foundation_instances = [], frame_instances = [], skin_instances = [],
       fdMat = initial_material 0xffffff, fMat = initial_material 0xffffff, sMat = initial_material 0xffffff\<rparr>) =
     [\<lparr>inst_position = (8, 0, 8), inst_scale = (2.8, 0.01, 2.8)\<rparr>]"
proof -
  let ?lay = "\<lparr>positions = [(8, 8)], heights = [10], draws = 3\<rparr>"
  let ?b = "\<lparr>foundation_instances = [], frame_instances = [], skin_instances = [],
       fdMat = initial_material 0xffffff, fMat = initial_material 0xffffff, sMat = initial_material 0xffffff\<rparr>"
  have h: "phase 5 \<le> 0.7"
    by (simp add: phase_5)
  have sa: "skinAppear (5 / 22) = 0"
    by (simp add: skinAppear_def finish_def remap_def clamp01_def easeInOut_def)
  have "opacity (sMat (Buildings_frame True ?lay 5 ?b)) = 0.15"
    using skin_opacity_floor [of ?lay 5 ?b] h by blast
  moreover have "skin_instances (Buildings_frame True ?lay 5 ?b) =
      [\<lparr>inst_position = (8, 0, 8), inst_scale = (2.8, 0.01, 2.8)\<rparr>]"
    by (simp add: skin_instances_frame phase_5 sa skin_matrix_def clamp01_def)
  ultimately show ?thesis
    using h by blast
qed

section \<open>Footprints and road lines\<close>

text \<open>
  C5. Whatever the draws of the randomization (each in \<open>[0, 1)\<close>, so each jitter in
  \<open>[-0.75, 0.75)\<close>), the generation keeps 36 footprints; each lies within the jitter of a
  grid cell whose coordinates are not multiples of 16, and its 2.8 by 2.8 ground rectangle
  meets no road strip, borders included. A cell with \<^verbatim>\<open>x % 16 === 0\<close> or
  \<^verbatim>\<open>z % 16 === 0\<close> leaves the layout as it is.
\<close>

theorem footprints_clear_of_roads:
  assumes "\<forall>k. 0 \<le> rnd k \<and> rnd k < 1"
  shows "length (positions (footprints rnd)) = 36 \<and>
    (\<forall>pq \<in> set (positions (footprints rnd)).
        near_cell pq \<and> (\<forall>r \<in> set roads. \<not> building_overlaps_road pq r)) \<and>
    (js_rem (of_int x) 16 = 0 \<or> js_rem (of_int z) 16 = 0 \<longrightarrow> footprint_cell rnd x z s = s)"
proof -
  have "near_cell pq \<and> (\<forall>r \<in> set roads. \<not> building_overlaps_road pq r)"
    if "pq \<in> set (positions (footprints rnd))" for pq
  proof -
    have n: "near_cell pq"
      using footprints_near [OF assms] that by blast
    then show ?thesis
      using roads_strips near_cell_clear_of_road by blast
  qed
  then show ?thesis
    by (simp add: footprints_count footprint_cell_def)
qed

theorem footprints_clear_of_roads_witness:
  "(\<forall>k::nat. (0::real) \<le> 0 \<and> (0::real) < 1) \<and>
   hd (positions (footprints (\<lambda>_. 0))) = (- 163 / 4, - 163 / 4) \<and>
   hd roads = \<lparr>mesh_position = (0, 0.02, - 48), extent_x = 200, extent_z = 3.2\<rparr> \<and>
   \<not> building_overlaps_road (- 163 / 4, - 163 / 4)
       \<lparr>mesh_position = (0, 0.02, - 48), extent_x = 200, extent_z = 3.2\<rparr>"
proof -
  have p: "(- 163 / 4, - 163 / 4) \<in> set (positions (footprints (\<lambda>_. 0)))"
    by code_simp
  have r: "\<lparr>mesh_position = (0, 0.02, - 48), extent_x = 200, extent_z = 3.2\<rparr> \<in> set roads"
    by code_simp
  have hp: "hd (positions (footprints (\<lambda>_. 0))) = (- 163 / 4, - 163 / 4)"
    by code_simp
  have hr: "hd roads = \<lparr>mesh_position = (0, 0.02, - 48), extent_x = 200, extent_z = 3.2\<rparr>"
    by code_simp
  have "\<forall>k::nat. (0::real) \<le> (\<lambda>_. 0) k \<and> (\<lambda>_. 0::real) k < 1"
    by simp
  from footprints_clear_of_roads [OF this] p r
  have "\<not> building_overlaps_road (- 163 / 4, - 163 / 4)
       \<lparr>mesh_position = (0, 0.02, - 48), extent_x = 200, extent_z = 3.2\<rparr>"
    by blast
  then show ?thesis
    using hp hr by simp
qed

section \<open>The camera\<close>

text \<open>
  C4, as amended. At every elapsed time \<open>t\<close> the frame callback puts the camera on the
  circle of radius 90 around the vertical axis through the scene centre, at the height
  \<open>25 + 6 * sin (0.25 * t)\<close>, which oscillates between 19 and 31, and aims it at \<open>(0, 6, 0)\<close>.
\<close>

theorem camera_orbit_position:
  "(fst (cam_position (CameraRig_frame True t cam)))\<^sup>2
     + (snd (snd (cam_position (CameraRig_frame True t cam))))\<^sup>2 = 90\<^sup>2 \<and>
   fst (snd (cam_position (CameraRig_frame True t cam))) = 25 + sin (t * 0.25) * 6 \<and>
   19 \<le> fst (snd (cam_position (CameraRig_frame True t cam))) \<and>
   fst (snd (cam_position (CameraRig_frame True t cam))) \<le> 31 \<and>
   cam_target (CameraRig_frame True t cam) = (0, 6, 0)"
proof -
  have pos: "cam_position (CameraRig_frame True t cam) =
      (cos (camera_angle t) * 90, camera_y t, sin (camera_angle t) * 90)"
    by (simp add: CameraRig_frame_def Let_def)
  have tgt: "cam_target (CameraRig_frame True t cam) = (0, 6, 0)"
    by (simp add: CameraRig_frame_def Let_def)
  have y: "camera_y t = 25 + sin (t * 0.25) * 6"
    by (simp add: camera_y_def)
  show ?thesis
    unfolding pos tgt fst_conv snd_conv
    using camera_radius [of "camera_angle t"] camera_y_range [of t] y by blast
qed

text \<open>
  The claim as it was stated fails: the height that the callback sets is 25 at \<open>t = 0\<close> and
  31 at \<open>t = 2 * pi\<close>, and at the cycle boundary \<open>t = 22\<close> neither the angle nor the x
  coordinate of the camera is continuous.
\<close>

theorem camera_height_and_angle_counterexample:
  "fst (snd (cam_position
      (CameraRig_frame True 0 \<lparr>cam_position = (0, 0, 5), cam_target = (0, 0, 0)\<rparr>))) = 25 \<and>
   fst (snd (cam_position
      (CameraRig_frame True (2 * pi) \<lparr>cam_position = (0, 0, 5), cam_target = (0, 0, 0)\<rparr>))) = 31 \<and>
   \<not> isCont camera_angle 22 \<and>
   \<not> isCont (\<lambda>t. fst (cam_position
        (CameraRig_frame True t \<lparr>cam_position = (0, 0, 5), cam_target = (0, 0, 0)\<rparr>))) 22"
  using camera_angle_jump camera_x_jump
  by (simp add: CameraRig_frame_def Let_def camera_y_def)

end
